theory Spec2Isabelle
  imports Complex_Main
begin

section \<open>pconpy: inter-residue distance matrices\<close>

text \<open>
  A shallow embedding of \<^verbatim>\<open>src/pconpy/pconpy.py\<close> (Python 2). The residue and atom objects
  come from Bio.PDB; only the parts the program reads are modelled: an atom's identifier
  (\<^verbatim>\<open>get_id()\<close>), its coordinate (\<^verbatim>\<open>get_coord()\<close>) and its \<^verbatim>\<open>mass\<close>; a residue's
  ordered list of atoms (\<^verbatim>\<open>get_list()\<close>, \<^verbatim>\<open>get_iterator()\<close>) and the lookup by name
  (\<^verbatim>\<open>res[name]\<close>, \<^verbatim>\<open>name in res\<close>).

  Numbers. The quantities read from the structure (coordinates, masses) are finite and are
  values of type \<^typ>\<open>real\<close>: rounding, overflow and signed zeros of float64 are left out.
  A computed float is a value of \<open>npfloat\<close> below, which adds what numpy's
  division by zero produces (a warning, not an exception): the infinities and NaN.
\<close>

subsection \<open>Data model\<close>

type_synonym vec3 = "real \<times> real \<times> real"

record atom =
  get_id :: string
  get_coord :: vec3
  mass :: real

record residue =
  get_list :: "atom list"

text \<open>\<^verbatim>\<open>res.get_iterator()\<close> walks the same child list as \<^verbatim>\<open>res.get_list()\<close>.\<close>

definition get_iterator :: "residue \<Rightarrow> atom list" where
  "get_iterator res = get_list res"

text \<open>
  \<^verbatim>\<open>res[name]\<close>: the child with that identifier; \<open>None\<close> stands for the KeyError.
  \<^verbatim>\<open>name in res\<close> is \<open>getitem res name \<noteq> None\<close>.
\<close>

definition getitem :: "residue \<Rightarrow> string \<Rightarrow> atom option" where
  "getitem res name = find (\<lambda>a. get_id a = name) (get_list res)"

definition contains :: "residue \<Rightarrow> string \<Rightarrow> bool" where
  "contains res name = (getitem res name \<noteq> None)"

text \<open>
  The exceptions that leave a function of the program. \<open>NotImplementedError\<close> is raised
  both for an atom without a reconstruction rule and for an unsupported metric selector.
\<close>

datatype error = NotImplementedError | AssertionError | IndexError

subsection \<open>Atom classification\<close>

definition BACKBONE_ATOMS :: "string set" where
  "BACKBONE_ATOMS = {''CA'', ''C'', ''O'', ''N''}"

definition BACKBONE_FULL_ATOMS :: "string set" where
  "BACKBONE_FULL_ATOMS = {''CA'', ''C'', ''O'', ''N'', ''H'', ''H1'', ''H2'', ''H3'', ''OXT''}"

definition is_backbone :: "atom \<Rightarrow> bool" where
  "is_backbone a = (get_id a \<in> BACKBONE_ATOMS)"

definition is_sidechain :: "atom \<Rightarrow> bool" where
  "is_sidechain a = (get_id a \<notin> BACKBONE_FULL_ATOMS)"

definition get_backbone_atoms :: "residue \<Rightarrow> atom list" where
  "get_backbone_atoms res = filter (\<lambda>a. is_backbone a) (get_iterator res)"

definition get_sidechain_atoms :: "residue \<Rightarrow> atom list" where
  "get_sidechain_atoms res = filter (\<lambda>a. is_sidechain a) (get_iterator res)"

subsection \<open>Computed floats\<close>

datatype npfloat = Fin real | PInf | NInf | NaN

fun fneg :: "npfloat \<Rightarrow> npfloat" where
  "fneg (Fin a) = Fin (- a)"
| "fneg PInf = NInf"
| "fneg NInf = PInf"
| "fneg NaN = NaN"

fun fadd :: "npfloat \<Rightarrow> npfloat \<Rightarrow> npfloat" where
  "fadd (Fin a) (Fin b) = Fin (a + b)"
| "fadd NaN _ = NaN"
| "fadd _ NaN = NaN"
| "fadd PInf NInf = NaN"
| "fadd NInf PInf = NaN"
| "fadd PInf _ = PInf"
| "fadd _ PInf = PInf"
| "fadd NInf _ = NInf"
| "fadd _ NInf = NInf"

definition fsub :: "npfloat \<Rightarrow> npfloat \<Rightarrow> npfloat" where
  "fsub a b = fadd a (fneg b)"

fun fmul :: "npfloat \<Rightarrow> npfloat \<Rightarrow> npfloat" where
  "fmul (Fin a) (Fin b) = Fin (a * b)"
| "fmul NaN _ = NaN"
| "fmul _ NaN = NaN"
| "fmul (Fin a) PInf = (if a = 0 then NaN else if 0 < a then PInf else NInf)"
| "fmul (Fin a) NInf = (if a = 0 then NaN else if 0 < a then NInf else PInf)"
| "fmul PInf (Fin b) = (if b = 0 then NaN else if 0 < b then PInf else NInf)"
| "fmul NInf (Fin b) = (if b = 0 then NaN else if 0 < b then NInf else PInf)"
| "fmul PInf PInf = PInf"
| "fmul NInf NInf = PInf"
| "fmul PInf NInf = NInf"
| "fmul NInf PInf = NInf"

text \<open>Division by zero is numpy's: a warning and an infinity, or NaN for \<open>0 / 0\<close>.\<close>

fun fdiv :: "npfloat \<Rightarrow> npfloat \<Rightarrow> npfloat" where
  "fdiv (Fin a) (Fin b) =
     (if b \<noteq> 0 then Fin (a / b) else if a = 0 then NaN else if 0 < a then PInf else NInf)"
| "fdiv NaN _ = NaN"
| "fdiv _ NaN = NaN"
| "fdiv (Fin a) _ = Fin 0"
| "fdiv PInf (Fin b) = (if 0 \<le> b then PInf else NInf)"
| "fdiv NInf (Fin b) = (if 0 \<le> b then NInf else PInf)"
| "fdiv _ _ = NaN"

fun fsqrt :: "npfloat \<Rightarrow> npfloat" where
  "fsqrt (Fin a) = (if a < 0 then NaN else Fin (sqrt a))"
| "fsqrt PInf = PInf"
| "fsqrt NInf = NaN"
| "fsqrt NaN = NaN"

text \<open>Comparison: every comparison with NaN is false.\<close>

fun fless :: "npfloat \<Rightarrow> npfloat \<Rightarrow> bool" where
  "fless (Fin a) (Fin b) = (a < b)"
| "fless NaN _ = False"
| "fless _ NaN = False"
| "fless _ NInf = False"
| "fless PInf _ = False"
| "fless _ _ = True"

subsection \<open>Geometry: Bio.PDB vectors and numpy norms\<close>

type_synonym fvec3 = "npfloat \<times> npfloat \<times> npfloat"
type_synonym fmat3 = "fvec3 \<times> fvec3 \<times> fvec3"

definition fin3 :: "vec3 \<Rightarrow> fvec3" where
  "fin3 v = (case v of (x, y, z) \<Rightarrow> (Fin x, Fin y, Fin z))"

text \<open>\<^verbatim>\<open>atom.get_vector()\<close>: the coordinate as a Bio.PDB Vector.\<close>

definition get_vector :: "atom \<Rightarrow> fvec3" where
  "get_vector a = fin3 (get_coord a)"

definition vadd :: "fvec3 \<Rightarrow> fvec3 \<Rightarrow> fvec3" where
  "vadd u v = (case u of (a, b, c) \<Rightarrow> case v of (x, y, z) \<Rightarrow> (fadd a x, fadd b y, fadd c z))"

definition vsub :: "fvec3 \<Rightarrow> fvec3 \<Rightarrow> fvec3" where
  "vsub u v = (case u of (a, b, c) \<Rightarrow> case v of (x, y, z) \<Rightarrow> (fsub a x, fsub b y, fsub c z))"

definition dot :: "fvec3 \<Rightarrow> fvec3 \<Rightarrow> npfloat" where
  "dot u v = (case u of (a, b, c) \<Rightarrow> case v of (x, y, z) \<Rightarrow>
     fadd (fadd (fmul a x) (fmul b y)) (fmul c z))"

text \<open>\<^verbatim>\<open>numpy.linalg.norm\<close> of a 3-vector, and of a scalar (a 0-d array, ravelled to one entry).\<close>

definition norm3 :: "fvec3 \<Rightarrow> npfloat" where
  "norm3 v = fsqrt (dot v v)"

definition norm1 :: "npfloat \<Rightarrow> npfloat" where
  "norm1 x = fsqrt (fmul x x)"

text \<open>\<^verbatim>\<open>Vector.normalized()\<close>: every component divided by the norm, with no guard.\<close>

definition normalized :: "fvec3 \<Rightarrow> fvec3" where
  "normalized v = (case v of (x, y, z) \<Rightarrow>
     (let n = norm3 v in (fdiv x n, fdiv y n, fdiv z n)))"

text \<open>
  \<^verbatim>\<open>Bio.PDB.rotaxis(theta, vector)\<close>: the left-multiplying matrix of the rotation by
  \<open>theta\<close> radians about \<open>vector\<close>, built from the normalised axis.
\<close>

definition rotaxis :: "real \<Rightarrow> fvec3 \<Rightarrow> fmat3" where
  "rotaxis theta vector =
     (case normalized vector of (x, y, z) \<Rightarrow>
       (let c = Fin (cos theta); s = Fin (sin theta); t = Fin (1 - cos theta) in
        ((fadd (fmul (fmul t x) x) c,
          fsub (fmul (fmul t x) y) (fmul s z),
          fadd (fmul (fmul t x) z) (fmul s y)),
         (fadd (fmul (fmul t x) y) (fmul s z),
          fadd (fmul (fmul t y) y) c,
          fsub (fmul (fmul t y) z) (fmul s x)),
         (fsub (fmul (fmul t x) z) (fmul s y),
          fadd (fmul (fmul t y) z) (fmul s x),
          fadd (fmul (fmul t z) z) c))))"

text \<open>\<^verbatim>\<open>v.left_multiply(m)\<close>: the product \<open>m v\<close>.\<close>

definition left_multiply :: "fvec3 \<Rightarrow> fmat3 \<Rightarrow> fvec3" where
  "left_multiply v m = (case m of (r1, r2, r3) \<Rightarrow> (dot r1 v, dot r2 v, dot r3 v))"

subsection \<open>Atom coordinates\<close>

text \<open>
  \<^verbatim>\<open>get_atom_coord(res, atom_name)\<close>. The KeyError of \<^verbatim>\<open>res[atom_name]\<close> is caught;
  the three assertions and the \<^verbatim>\<open>raise NotImplementedError\<close> are the results \<open>Inl\<close>.
  The warning written to stderr under \<^verbatim>\<open>verbose\<close> is not modelled.
  \<open>CA_N\<close> is computed and not used, as in the source: the rotation is applied to \<open>N\<close>.
\<close>

definition get_atom_coord :: "residue \<Rightarrow> string \<Rightarrow> error + fvec3" where
  "get_atom_coord res atom_name =
     (case getitem res atom_name of
        Some a \<Rightarrow> Inr (fin3 (get_coord a))
      | None \<Rightarrow>
          if atom_name \<noteq> ''CB'' then Inl NotImplementedError
          else if \<not> contains res ''N'' then Inl AssertionError
          else if \<not> contains res ''CA'' then Inl AssertionError
          else if \<not> contains res ''C'' then Inl AssertionError
          else
            (case (getitem res ''N'', getitem res ''CA'', getitem res ''C'') of
               (Some n, Some ca, Some c) \<Rightarrow>
                 (let N = get_vector n;
                      CA = get_vector ca;
                      C = get_vector c;
                      CA_N = vsub N CA;
                      CA_C = vsub C CA;
                      rot_mat = rotaxis (pi * 120 / 180) CA_C
                  in Inr (vadd CA (left_multiply N rot_mat)))
             | _ \<Rightarrow> Inl AssertionError))"

text \<open>
  The virtual CB as the specification words it: the vectors CA\<rightarrow>N and CA\<rightarrow>C, CA\<rightarrow>N rotated by
  \<open>-120\<close> degrees about the CA\<rightarrow>C axis, the result added to CA's coordinate.
\<close>

definition virtual_cb_spec :: "vec3 \<Rightarrow> vec3 \<Rightarrow> vec3 \<Rightarrow> fvec3" where
  "virtual_cb_spec n ca c =
     (let CA_N = vsub (fin3 n) (fin3 ca);
          CA_C = vsub (fin3 c) (fin3 ca)
      in vadd (fin3 ca) (left_multiply CA_N (rotaxis (- (pi * 120 / 180)) CA_C)))"

subsection \<open>Centre of mass\<close>

text \<open>
  \<^verbatim>\<open>numpy.array([...]).sum()\<close> without an axis adds every entry of the array, and Python's
  \<^verbatim>\<open>sum\<close> adds from 0: both are a left fold of the addition from zero.
\<close>

definition fsum :: "npfloat list \<Rightarrow> npfloat" where
  "fsum xs = foldl fadd (Fin 0) xs"

text \<open>\<^verbatim>\<open>x.mass * x.get_coord()\<close>: one row of the array, the three scaled components.\<close>

definition mass_times_coord :: "atom \<Rightarrow> npfloat list" where
  "mass_times_coord x = (case get_coord x of (cx, cy, cz) \<Rightarrow>
     [fmul (Fin (mass x)) (Fin cx), fmul (Fin (mass x)) (Fin cy), fmul (Fin (mass x)) (Fin cz)])"

definition calc_center_of_mass :: "atom list \<Rightarrow> npfloat" where
  "calc_center_of_mass atoms =
     fdiv (fsum (concat (map mass_times_coord atoms))) (fsum (map (\<lambda>x. Fin (mass x)) atoms))"

text \<open>
  The result of a distance function is a Python value that a caller may test with
  \<^verbatim>\<open>is None\<close>: an \<open>npfloat option\<close>, \<open>None\<close> being Python's \<^verbatim>\<open>None\<close>.
\<close>

definition calc_cmass_distance :: "residue \<Rightarrow> residue \<Rightarrow> bool \<Rightarrow> npfloat option" where
  "calc_cmass_distance res_a res_b sidechain_only =
     (let atoms_a = (if sidechain_only then get_sidechain_atoms res_a else get_list res_a);
          atoms_b = (if sidechain_only then get_sidechain_atoms res_b else get_list res_b);
          A = calc_center_of_mass atoms_a;
          B = calc_center_of_mass atoms_b
      in Some (norm1 (fsub A B)))"

subsection \<open>Minimum distance between van der Waals surfaces\<close>

definition VDW_RADII :: "string \<rightharpoonup> real" where
  "VDW_RADII = map_of [(''N'', 1.55), (''C'', 1.70), (''H'', 1.20), (''O'', 1.52), (''S'', 1.85)]"

text \<open>\<^verbatim>\<open>VDW_RADII.get(key, 0.0)\<close>.\<close>

definition VDW_RADII_get :: "string \<Rightarrow> real" where
  "VDW_RADII_get key = (case VDW_RADII key of None \<Rightarrow> 0 | Some r \<Rightarrow> r)"

text \<open>\<^verbatim>\<open>a.get_id()[0]\<close>: the first character, an IndexError on the empty string.\<close>

definition first_char :: "string \<Rightarrow> error + string" where
  "first_char s = (case s of [] \<Rightarrow> Inl IndexError | c # _ \<Rightarrow> Inr [c])"

text \<open>The body of the inner loop, from the current \<open>min_dist\<close> to the next.\<close>

definition minvdw_step :: "npfloat option \<Rightarrow> atom \<Rightarrow> atom \<Rightarrow> error + npfloat option" where
  "minvdw_step min_dist a b =
     (case first_char (get_id a) of
        Inl e \<Rightarrow> Inl e
      | Inr ka \<Rightarrow>
         (case first_char (get_id b) of
            Inl e \<Rightarrow> Inl e
          | Inr kb \<Rightarrow>
             (let radii_a = VDW_RADII_get ka;
                  radii_b = VDW_RADII_get kb;
                  A = fin3 (get_coord a);
                  B = fin3 (get_coord b);
                  d = fsub (fsub (norm3 (vsub A B)) (Fin radii_a)) (Fin radii_b)
              in Inr (case min_dist of
                        None \<Rightarrow> Some d
                      | Some m \<Rightarrow> if fless d m then Some d else Some m))))"

fun minvdw_loop :: "npfloat option \<Rightarrow> (atom \<times> atom) list \<Rightarrow> error + npfloat option" where
  "minvdw_loop min_dist [] = Inr min_dist"
| "minvdw_loop min_dist ((a, b) # ps) =
     (case minvdw_step min_dist a b of
        Inl e \<Rightarrow> Inl e
      | Inr min_dist' \<Rightarrow> minvdw_loop min_dist' ps)"

text \<open>The two nested loops visit the pairs with \<open>a\<close> outermost.\<close>

definition calc_minvdw_distance :: "residue \<Rightarrow> residue \<Rightarrow> error + npfloat option" where
  "calc_minvdw_distance res_a res_b =
     minvdw_loop None (List.product (get_iterator res_a) (get_iterator res_b))"

subsection \<open>Metric dispatch\<close>

text \<open>The branch for \<^verbatim>\<open>"sccmass"\<close> is commented out in the source, so that selector falls
  through to the final \<^verbatim>\<open>raise NotImplementedError\<close>.\<close>

definition calc_distance :: "residue \<Rightarrow> residue \<Rightarrow> string \<Rightarrow> error + npfloat option" where
  "calc_distance res_a res_b metric =
     (if metric \<in> {''CA'', ''CB''} then
        (case get_atom_coord res_a metric of
           Inl e \<Rightarrow> Inl e
         | Inr A \<Rightarrow>
            (case get_atom_coord res_b metric of
               Inl e \<Rightarrow> Inl e
             | Inr B \<Rightarrow> Inr (Some (norm3 (vsub A B)))))
      else if metric = ''cmass'' then Inr (calc_cmass_distance res_a res_b False)
      else if metric = ''minvdw'' then calc_minvdw_distance res_a res_b
      else Inl NotImplementedError)"

subsection \<open>Matrix builder\<close>

type_synonym matrix = "npfloat list list"

text \<open>\<^verbatim>\<open>numpy.zeros((n, m), dtype="float64")\<close>.\<close>

definition zeros :: "nat \<Rightarrow> nat \<Rightarrow> matrix" where
  "zeros n m = replicate n (replicate m (Fin 0))"

text \<open>
  What a float64 array stores for a Python value: a float as it is, \<^verbatim>\<open>None\<close> as NaN.
\<close>

definition as_float :: "npfloat option \<Rightarrow> npfloat" where
  "as_float v = (case v of None \<Rightarrow> NaN | Some d \<Rightarrow> d)"

text \<open>\<^verbatim>\<open>mat[i,j] = v\<close>, for indices in range (every call below is).\<close>

definition setitem :: "matrix \<Rightarrow> nat \<Rightarrow> nat \<Rightarrow> npfloat option \<Rightarrow> matrix" where
  "setitem mat i j v = mat[i := (mat ! i)[j := as_float v]]"

text \<open>\<^verbatim>\<open>combinations(xrange(n), 2)\<close>: the pairs \<open>i < j < n\<close> in lexicographic order.\<close>

definition combinations2 :: "nat \<Rightarrow> (nat \<times> nat) list" where
  "combinations2 n = concat (map (\<lambda>i. map (\<lambda>j. (i, j)) [Suc i ..< n]) [0 ..< n])"

text \<open>The lexicographic order of index pairs.\<close>

definition lex_less :: "nat \<times> nat \<Rightarrow> nat \<times> nat \<Rightarrow> bool" where
  "lex_less p q = (fst p < fst q \<or> (fst p = fst q \<and> snd p < snd q))"

fun make_dist_loop :: "residue list \<Rightarrow> string \<Rightarrow> (nat \<times> nat) list \<Rightarrow> matrix \<Rightarrow> error + matrix" where
  "make_dist_loop residues metric [] mat = Inr mat"
| "make_dist_loop residues metric ((i, j) # ps) mat =
     (let res_a = residues ! i;
          res_b = residues ! j
      in case calc_distance res_a res_b metric of
           Inl e \<Rightarrow> Inl e
         | Inr d \<Rightarrow> make_dist_loop residues metric ps (setitem mat i j d))"

definition make_dist_matrix :: "residue list \<Rightarrow> string \<Rightarrow> error + matrix" where
  "make_dist_matrix residues metric =
     (let mat = zeros (length residues) (length residues)
      in make_dist_loop residues metric (combinations2 (length residues)) mat)"

subsection \<open>The side-chain centre-of-mass branch of the main program\<close>

text \<open>
  The branch \<^verbatim>\<open>opts["-d"] == "sccmass"\<close> of \<^verbatim>\<open>__main__\<close>: every ordered pair of indices is
  visited; a distance that is \<^verbatim>\<open>None\<close> puts the pair on \<open>empty_indices\<close>, any other is
  stored. Afterwards every pair on the list receives \<^verbatim>\<open>mat.max()\<close>, which is NaN as soon as
  one entry is.
\<close>

fun sccmass_loop ::
  "residue list \<Rightarrow> (nat \<times> nat) list \<Rightarrow> matrix \<times> (nat \<times> nat) list \<Rightarrow> matrix \<times> (nat \<times> nat) list"
where
  "sccmass_loop residues [] st = st"
| "sccmass_loop residues ((i, j) # ps) (mat, empty_indices) =
     (case calc_cmass_distance (residues ! i) (residues ! j) True of
        None \<Rightarrow> sccmass_loop residues ps (mat, empty_indices @ [(i, j)])
      | Some d \<Rightarrow> sccmass_loop residues ps (setitem mat i j (Some d), empty_indices))"

definition fmax :: "npfloat \<Rightarrow> npfloat \<Rightarrow> npfloat" where
  "fmax a b = (if a = NaN \<or> b = NaN then NaN else if fless a b then b else a)"

text \<open>\<^verbatim>\<open>mat.max()\<close>; on an array without entries numpy raises ValueError, here \<open>None\<close>.\<close>

definition mat_max :: "matrix \<Rightarrow> npfloat option" where
  "mat_max mat = (case concat mat of [] \<Rightarrow> None | x # xs \<Rightarrow> Some (foldl fmax x xs))"

fun fill_empty :: "(nat \<times> nat) list \<Rightarrow> matrix \<Rightarrow> matrix option" where
  "fill_empty [] mat = Some mat"
| "fill_empty ((i, j) # ps) mat =
     (case mat_max mat of
        None \<Rightarrow> None
      | Some m \<Rightarrow> fill_empty ps (setitem mat i j (Some m)))"

text \<open>The branch as a whole: the matrix and, for inspection, the list of deferred pairs.\<close>

definition sccmass_matrix :: "residue list \<Rightarrow> (matrix \<times> (nat \<times> nat) list) option" where
  "sccmass_matrix residues =
     (let n = length residues;
          (mat, empty_indices) =
             sccmass_loop residues (List.product [0 ..< n] [0 ..< n]) (zeros n n, [])
      in case fill_empty empty_indices mat of
           None \<Rightarrow> None
         | Some mat' \<Rightarrow> Some (mat', empty_indices))"

subsection \<open>The metrics as the specification words them\<close>

text \<open>
  The mass-weighted centroid as a 3-vector, \<open>\<Sum> mass\<^sub>i \<cdot> coord\<^sub>i / \<Sum> mass\<^sub>i\<close>, and the
  Euclidean norm of the difference of two centroids. They are stated for residues whose
  selected atoms have a non-zero total mass.
\<close>

definition centroid_spec :: "atom list \<Rightarrow> vec3" where
  "centroid_spec atoms =
     (let M = sum_list (map mass atoms) in
      (sum_list (map (\<lambda>x. mass x * fst (get_coord x)) atoms) / M,
       sum_list (map (\<lambda>x. mass x * fst (snd (get_coord x))) atoms) / M,
       sum_list (map (\<lambda>x. mass x * snd (snd (get_coord x))) atoms) / M))"

definition eucl_spec :: "vec3 \<Rightarrow> vec3 \<Rightarrow> real" where
  "eucl_spec u v = (case u of (a, b, c) \<Rightarrow> case v of (x, y, z) \<Rightarrow>
     sqrt ((a - x)\<^sup>2 + (b - y)\<^sup>2 + (c - z)\<^sup>2))"

definition cmass_distance_spec :: "atom list \<Rightarrow> atom list \<Rightarrow> real" where
  "cmass_distance_spec atoms_a atoms_b = eucl_spec (centroid_spec atoms_a) (centroid_spec atoms_b)"

text \<open>
  The radius of an atom, looked up by its element symbol, the first character of its
  identifier, and the gap between the van der Waals spheres of two atoms.
\<close>

definition vdw_radius :: "atom \<Rightarrow> real" where
  "vdw_radius a = (case get_id a of [] \<Rightarrow> 0 | c # _ \<Rightarrow> VDW_RADII_get [c])"

definition vdw_gap :: "atom \<Rightarrow> atom \<Rightarrow> real" where
  "vdw_gap a b = eucl_spec (get_coord a) (get_coord b) - vdw_radius a - vdw_radius b"

subsection \<open>Example residues\<close>

text \<open>A glycine-like residue: backbone atoms only, no CB.\<close>

definition gly :: residue where
  "gly = \<lparr>get_list =
     [\<lparr>get_id = ''N'', get_coord = (2, 0, 0), mass = 14\<rparr>,
      \<lparr>get_id = ''CA'', get_coord = (1, 0, 0), mass = 12\<rparr>,
      \<lparr>get_id = ''C'', get_coord = (1, 0, 1), mass = 12\<rparr>]\<rparr>"

text \<open>A residue of one atom, of mass 12, with the given identifier and coordinate.\<close>

definition single :: "string \<Rightarrow> vec3 \<Rightarrow> residue" where
  "single name c = \<lparr>get_list = [\<lparr>get_id = name, get_coord = c, mass = 12\<rparr>]\<rparr>"


section \<open>Properties\<close>

lemmas geom_defs = get_vector_def fin3_def vsub_def vadd_def fsub_def rotaxis_def
  normalized_def norm3_def norm1_def dot_def left_multiply_def Let_def

subsection \<open>Atom classification\<close>

text \<open>
  C10. No atom is both a backbone atom and a side-chain atom, and an atom whose identifier
  is one of H, H1, H2, H3, OXT is neither.
\<close>

theorem backbone_sidechain_exclusive:
  "\<not> (is_backbone a \<and> is_sidechain a) \<and>
   (get_id a \<in> {''H'', ''H1'', ''H2'', ''H3'', ''OXT''} \<longrightarrow>
      \<not> is_backbone a \<and> \<not> is_sidechain a)"
  by (auto simp: is_backbone_def is_sidechain_def BACKBONE_ATOMS_def BACKBONE_FULL_ATOMS_def)

theorem backbone_sidechain_exclusive_witness:
  "get_id \<lparr>get_id = ''OXT'', get_coord = (0, 0, 0), mass = 16\<rparr>
     \<in> {''H'', ''H1'', ''H2'', ''H3'', ''OXT''} \<and>
   \<not> is_backbone \<lparr>get_id = ''OXT'', get_coord = (0, 0, 0), mass = 16\<rparr> \<and>
   \<not> is_sidechain \<lparr>get_id = ''OXT'', get_coord = (0, 0, 0), mass = 16\<rparr>"
  using backbone_sidechain_exclusive
    [of "\<lparr>get_id = ''OXT'', get_coord = (0, 0, 0), mass = 16\<rparr>"]
  by simp

subsection \<open>Atom coordinates\<close>

text \<open>
  C1. On the glycine-like residue \<open>gly\<close> (N at (2,0,0), CA at (1,0,0), C at (1,0,1), no CB)
  \<open>get_atom_coord\<close> returns (0, \<surd>3, 0): the absolute position of N rotated by +120 degrees
  about the CA\<rightarrow>C axis and added to CA. The virtual CB of the claim, CA\<rightarrow>N rotated by -120
  degrees and added to CA, is (1/2, -\<surd>3/2, 0). The two differ.
\<close>

theorem get_atom_coord_virtual_cb_diverges:
  "get_atom_coord gly ''CB'' = Inr (Fin 0, Fin (sqrt 3), Fin 0) \<and>
   virtual_cb_spec (2, 0, 0) (1, 0, 0) (1, 0, 1) = (Fin (1 / 2), Fin (- sqrt 3 / 2), Fin 0) \<and>
   get_atom_coord gly ''CB'' \<noteq> Inr (virtual_cb_spec (2, 0, 0) (1, 0, 0) (1, 0, 1))"
proof -
  have code: "get_atom_coord gly ''CB'' = Inr (Fin 0, Fin (sqrt 3), Fin 0)"
    by (simp add: get_atom_coord_def gly_def getitem_def contains_def geom_defs cos_120 sin_120)
  have spec: "virtual_cb_spec (2, 0, 0) (1, 0, 0) (1, 0, 1) = (Fin (1 / 2), Fin (- sqrt 3 / 2), Fin 0)"
    by (simp add: virtual_cb_spec_def geom_defs cos_120 sin_120)
  show ?thesis unfolding code spec by simp
qed

text \<open>
  C8, as stated, at a residue without CA: the lookup of "CA" fails with NotImplementedError
  although the name is "CA".
\<close>

theorem get_atom_coord_CA_absent_counterexample:
  "\<not> (get_atom_coord (single ''N'' (0, 0, 0)) ''CA'' = Inl NotImplementedError
        \<longleftrightarrow> getitem (single ''N'' (0, 0, 0)) ''CA'' = None \<and> ''CA'' \<notin> {''CA'', ''CB''})"
  by (simp add: get_atom_coord_def single_def getitem_def)

text \<open>
  C8, amended. The lookup fails with NotImplementedError exactly when the named atom is
  absent and the name is anything other than "CB"; when the named atom is present, its
  coordinate is returned.
\<close>

theorem get_atom_coord_fails_iff:
  "(get_atom_coord res name = Inl NotImplementedError
      \<longleftrightarrow> getitem res name = None \<and> name \<noteq> ''CB'') \<and>
   (\<forall>a. getitem res name = Some a \<longrightarrow> get_atom_coord res name = Inr (fin3 (get_coord a)))"
  by (auto simp: get_atom_coord_def Let_def split: option.splits)

theorem get_atom_coord_fails_iff_witness:
  "getitem (single ''CA'' (1, 2, 3)) ''CA'' = Some \<lparr>get_id = ''CA'', get_coord = (1, 2, 3), mass = 12\<rparr> \<and>
   get_atom_coord (single ''CA'' (1, 2, 3)) ''CA'' = Inr (Fin 1, Fin 2, Fin 3) \<and>
   getitem (single ''CA'' (1, 2, 3)) ''O'' = None \<and> ''O'' \<noteq> ''CB'' \<and>
   get_atom_coord (single ''CA'' (1, 2, 3)) ''O'' = Inl NotImplementedError"
  using get_atom_coord_fails_iff [of "single ''CA'' (1, 2, 3)" "''CA''"]
        get_atom_coord_fails_iff [of "single ''CA'' (1, 2, 3)" "''O''"]
  by (simp add: single_def getitem_def fin3_def)

subsection \<open>Centre-of-mass distance\<close>

text \<open>
  C3. For two one-atom residues at (1,0,0) and (0,1,0) the centroids are those points and
  their Euclidean distance is \<surd>2; \<open>calc_cmass_distance\<close> returns 0, because
  \<open>calc_center_of_mass\<close> adds all entries of the array of weighted coordinates into one
  scalar instead of adding them componentwise.
\<close>

theorem calc_cmass_distance_scalar_centroid:
  "calc_cmass_distance (single ''CB'' (1, 0, 0)) (single ''CB'' (0, 1, 0)) False = Some (Fin 0) \<and>
   cmass_distance_spec (get_list (single ''CB'' (1, 0, 0))) (get_list (single ''CB'' (0, 1, 0))) = sqrt 2"
  by (simp add: calc_cmass_distance_def calc_center_of_mass_def fsum_def mass_times_coord_def
      single_def geom_defs cmass_distance_spec_def centroid_spec_def eucl_spec_def)

lemma calc_center_of_mass_Nil: "calc_center_of_mass [] = NaN"
  by (simp add: calc_center_of_mass_def fsum_def)

lemma fsub_NaN: "fsub NaN x = NaN" "fsub x NaN = NaN"
  by (cases x; simp add: fsub_def)+

lemma norm1_NaN: "norm1 NaN = NaN"
  by (simp add: norm1_def)

lemma calc_cmass_distance_empty_selection:
  "get_sidechain_atoms ra = [] \<or> get_sidechain_atoms rb = [] \<Longrightarrow>
   calc_cmass_distance ra rb True = Some NaN"
  by (auto simp: calc_cmass_distance_def calc_center_of_mass_Nil fsub_NaN norm1_NaN)

text \<open>
  C4. For the glycine-like residue \<open>gly\<close>, which has no side-chain atom, paired with a
  residue that has one, the side-chain centre-of-mass distance is the float NaN, returned as
  an ordinary result in either order of the arguments: nothing is raised and the result is
  not \<^verbatim>\<open>None\<close>.
\<close>

theorem calc_cmass_distance_glycine_nan:
  "get_sidechain_atoms gly = [] \<and>
   calc_cmass_distance gly (single ''CB'' (0, 1, 0)) True = Some NaN \<and>
   calc_cmass_distance (single ''CB'' (0, 1, 0)) gly True = Some NaN"
proof -
  have "get_sidechain_atoms gly = []"
    by (simp add: gly_def get_sidechain_atoms_def get_iterator_def is_sidechain_def
        BACKBONE_FULL_ATOMS_def)
  then show ?thesis by (simp add: calc_cmass_distance_empty_selection)
qed

subsection \<open>Minimum distance between van der Waals surfaces\<close>

lemma norm3_fin: "norm3 (vsub (fin3 u) (fin3 v)) = Fin (eucl_spec u v)"
proof -
  obtain a b c where u: "u = (a, b, c)" by (cases u)
  obtain x y z where v: "v = (x, y, z)" by (cases v)
  have nonneg: "\<not> (a - x) * (a - x) + (b - y) * (b - y) + (c - z) * (c - z) < 0"
    by (simp add: not_less)
  show ?thesis
    using nonneg by (simp add: u v geom_defs eucl_spec_def power2_eq_square)
qed

lemma first_char_nonempty: "s \<noteq> [] \<Longrightarrow> first_char s = Inr [hd s]"
  by (cases s) (simp_all add: first_char_def)

lemma vdw_radius_nonempty: "get_id a \<noteq> [] \<Longrightarrow> vdw_radius a = VDW_RADII_get [hd (get_id a)]"
  by (cases "get_id a") (simp_all add: vdw_radius_def)

lemma minvdw_step_fin:
  assumes "get_id a \<noteq> []" and "get_id b \<noteq> []"
  shows "minvdw_step None a b = Inr (Some (Fin (vdw_gap a b)))"
    and "minvdw_step (Some (Fin m)) a b = Inr (Some (Fin (min (vdw_gap a b) m)))"
  using assms
  by (simp_all add: minvdw_step_def first_char_nonempty vdw_radius_nonempty norm3_fin fsub_def
       vdw_gap_def Let_def min_def)

lemma minvdw_loop_fin:
  assumes "\<forall>(a, b)\<in>set ps. get_id a \<noteq> [] \<and> get_id b \<noteq> []"
  shows "minvdw_loop (Some (Fin m)) ps =
         Inr (Some (Fin (Min (insert m ((\<lambda>(a, b). vdw_gap a b) ` set ps)))))"
  using assms
proof (induction ps arbitrary: m)
  case Nil
  show ?case by simp
next
  case (Cons p ps)
  obtain a b where p: "p = (a, b)" by (cases p)
  from Cons.prems p have ids: "get_id a \<noteq> []" "get_id b \<noteq> []"
    and rest: "\<forall>(a, b)\<in>set ps. get_id a \<noteq> [] \<and> get_id b \<noteq> []" by auto
  let ?G = "(\<lambda>(a, b). vdw_gap a b) ` set ps"
  have fin: "finite ?G" by simp
  have "minvdw_loop (Some (Fin m)) (p # ps) = minvdw_loop (Some (Fin (min (vdw_gap a b) m))) ps"
    by (simp add: p minvdw_step_fin(2) [OF ids])
  also have "\<dots> = Inr (Some (Fin (Min (insert (min (vdw_gap a b) m) ?G))))"
    by (rule Cons.IH [OF rest])
  also have "Min (insert (min (vdw_gap a b) m) ?G) = Min (insert m (insert (vdw_gap a b) ?G))"
  proof (cases "?G = {}")
    case True
    then show ?thesis by (simp add: min.commute)
  next
    case False
    then show ?thesis using fin by (simp add: min.commute min.assoc)
  qed
  finally show ?case by (simp add: p)
qed

lemma calc_minvdw_distance_Min:
  assumes ne: "get_list ra \<noteq> []" "get_list rb \<noteq> []"
    and ids: "\<forall>x\<in>set (get_list ra) \<union> set (get_list rb). get_id x \<noteq> []"
  shows "calc_minvdw_distance ra rb =
     Inr (Some (Fin (Min {vdw_gap a b | a b. a \<in> set (get_list ra) \<and> b \<in> set (get_list rb)})))"
proof -
  let ?ps = "List.product (get_list ra) (get_list rb)"
  from ne obtain a0 as where A: "get_list ra = a0 # as" by (cases "get_list ra") auto
  from ne obtain b0 bs where B: "get_list rb = b0 # bs" by (cases "get_list rb") auto
  obtain qs where ps: "?ps = (a0, b0) # qs" by (simp add: A B)
  have all: "\<forall>(a, b)\<in>set ?ps. get_id a \<noteq> [] \<and> get_id b \<noteq> []"
    using ids by auto
  then have ids0: "get_id a0 \<noteq> []" "get_id b0 \<noteq> []"
    and rest: "\<forall>(a, b)\<in>set qs. get_id a \<noteq> [] \<and> get_id b \<noteq> []"
    unfolding ps by auto
  have "calc_minvdw_distance ra rb = minvdw_loop (Some (Fin (vdw_gap a0 b0))) qs"
    by (simp add: calc_minvdw_distance_def get_iterator_def ps minvdw_step_fin(1) [OF ids0])
  also have "\<dots> = Inr (Some (Fin (Min (insert (vdw_gap a0 b0) ((\<lambda>(a, b). vdw_gap a b) ` set qs)))))"
    by (rule minvdw_loop_fin [OF rest])
  also have "insert (vdw_gap a0 b0) ((\<lambda>(a, b). vdw_gap a b) ` set qs) = (\<lambda>(a, b). vdw_gap a b) ` set ?ps"
    unfolding ps by simp
  also have "\<dots> = {vdw_gap a b | a b. a \<in> set (get_list ra) \<and> b \<in> set (get_list rb)}"
    by auto
  finally show ?thesis .
qed

lemma VDW_RADII_table:
  "VDW_RADII_get ''N'' = 1.55 \<and> VDW_RADII_get ''C'' = 1.70 \<and> VDW_RADII_get ''H'' = 1.20 \<and>
   VDW_RADII_get ''O'' = 1.52 \<and> VDW_RADII_get ''S'' = 1.85 \<and>
   (\<forall>k. k \<notin> {''N'', ''C'', ''H'', ''O'', ''S''} \<longrightarrow> VDW_RADII_get k = 0)"
  by (simp add: VDW_RADII_get_def VDW_RADII_def)

text \<open>
  C7. For two residues with at least one atom each (every atom identifier having a first
  character), \<open>calc_minvdw_distance\<close> returns the minimum over all atom pairs of the
  distance of the two coordinates minus the two radii; the radius is looked up by the first
  character of the identifier in the table N 1.55, C 1.70, H 1.20, O 1.52, S 1.85 and is 0
  for any other key. For two one-atom carbon residues at distance 5 the result is 1.60.
\<close>

theorem calc_minvdw_distance_minimum:
  "(get_list ra \<noteq> [] \<and> get_list rb \<noteq> [] \<and>
    (\<forall>x\<in>set (get_list ra) \<union> set (get_list rb). get_id x \<noteq> []) \<longrightarrow>
      calc_minvdw_distance ra rb =
        Inr (Some (Fin (Min {vdw_gap a b | a b. a \<in> set (get_list ra) \<and> b \<in> set (get_list rb)})))) \<and>
   (\<forall>a. vdw_radius a = (case get_id a of [] \<Rightarrow> 0 | c # _ \<Rightarrow> VDW_RADII_get [c])) \<and>
   VDW_RADII_get ''N'' = 1.55 \<and> VDW_RADII_get ''C'' = 1.70 \<and> VDW_RADII_get ''H'' = 1.20 \<and>
   VDW_RADII_get ''O'' = 1.52 \<and> VDW_RADII_get ''S'' = 1.85 \<and>
   (\<forall>k. k \<notin> {''N'', ''C'', ''H'', ''O'', ''S''} \<longrightarrow> VDW_RADII_get k = 0) \<and>
   (\<forall>a b s t. get_list ra = [a] \<and> get_list rb = [b] \<and>
      get_id a = CHR ''C'' # s \<and> get_id b = CHR ''C'' # t \<and>
      eucl_spec (get_coord a) (get_coord b) = 5 \<longrightarrow>
      calc_minvdw_distance ra rb = Inr (Some (Fin 1.60)))"
proof (intro conjI allI impI)
  assume "get_list ra \<noteq> [] \<and> get_list rb \<noteq> [] \<and>
    (\<forall>x\<in>set (get_list ra) \<union> set (get_list rb). get_id x \<noteq> [])"
  then show "calc_minvdw_distance ra rb =
        Inr (Some (Fin (Min {vdw_gap a b | a b. a \<in> set (get_list ra) \<and> b \<in> set (get_list rb)})))"
    using calc_minvdw_distance_Min by blast
next
  fix a show "vdw_radius a = (case get_id a of [] \<Rightarrow> 0 | c # _ \<Rightarrow> VDW_RADII_get [c])"
    by (simp add: vdw_radius_def)
next
  fix k :: string assume "k \<notin> {''N'', ''C'', ''H'', ''O'', ''S''}"
  then show "VDW_RADII_get k = 0" using VDW_RADII_table by blast
next
  fix a b s t
  assume h: "get_list ra = [a] \<and> get_list rb = [b] \<and>
      get_id a = CHR ''C'' # s \<and> get_id b = CHR ''C'' # t \<and>
      eucl_spec (get_coord a) (get_coord b) = 5"
  then have "calc_minvdw_distance ra rb = Inr (Some (Fin (vdw_gap a b)))"
    by (simp add: calc_minvdw_distance_def get_iterator_def minvdw_step_fin(1))
  moreover have "vdw_gap a b = 1.60"
    using h by (simp add: vdw_gap_def vdw_radius_def VDW_RADII_get_def VDW_RADII_def)
  ultimately show "calc_minvdw_distance ra rb = Inr (Some (Fin 1.60))" by simp
qed (simp_all add: VDW_RADII_get_def VDW_RADII_def)

theorem calc_minvdw_distance_minimum_witness:
  "get_list (single ''C'' (0, 0, 0)) = [\<lparr>get_id = ''C'', get_coord = (0, 0, 0), mass = 12\<rparr>] \<and>
   get_list (single ''C'' (3, 4, 0)) = [\<lparr>get_id = ''C'', get_coord = (3, 4, 0), mass = 12\<rparr>] \<and>
   ''C'' \<noteq> [] \<and>
   eucl_spec (0, 0, 0) (3, 4, 0) = 5 \<and>
   calc_minvdw_distance (single ''C'' (0, 0, 0)) (single ''C'' (3, 4, 0)) = Inr (Some (Fin 1.60)) \<and>
   calc_minvdw_distance (single ''C'' (0, 0, 0)) (single ''C'' (3, 4, 0)) =
     Inr (Some (Fin (Min {vdw_gap a b | a b.
        a \<in> set (get_list (single ''C'' (0, 0, 0))) \<and> b \<in> set (get_list (single ''C'' (3, 4, 0)))})))"
proof -
  let ?a = "\<lparr>get_id = ''C'', get_coord = (0, 0, 0), mass = 12\<rparr>"
  let ?b = "\<lparr>get_id = ''C'', get_coord = (3, 4, 0), mass = 12\<rparr>"
  have five: "eucl_spec (0, 0, 0) (3, 4, 0) = 5"
    by (simp add: eucl_spec_def)
  note T = calc_minvdw_distance_minimum [of "single ''C'' (0, 0, 0)" "single ''C'' (3, 4, 0)"]
  note P = T [THEN conjunct2, THEN conjunct2, THEN conjunct2, THEN conjunct2, THEN conjunct2,
    THEN conjunct2, THEN conjunct2, THEN conjunct2, rule_format, of ?a ?b "[]" "[]"]
  have particular:
    "calc_minvdw_distance (single ''C'' (0, 0, 0)) (single ''C'' (3, 4, 0)) = Inr (Some (Fin 1.60))"
    by (rule P) (simp add: single_def five)
  have general:
    "calc_minvdw_distance (single ''C'' (0, 0, 0)) (single ''C'' (3, 4, 0)) =
     Inr (Some (Fin (Min {vdw_gap a b | a b.
        a \<in> set (get_list (single ''C'' (0, 0, 0))) \<and> b \<in> set (get_list (single ''C'' (3, 4, 0)))})))"
    by (rule T [THEN conjunct1, rule_format]) (simp add: single_def)
  show ?thesis using five particular general by (simp add: single_def)
qed

subsection \<open>Metric dispatch\<close>






subsection \<open>Matrix builder\<close>

lemma length_setitem: "length (setitem mat i j v) = length mat"
  by (simp add: setitem_def)

lemma length_row_setitem:
  "a < length mat \<Longrightarrow> length (setitem mat i j v ! a) = length (mat ! a)"
  by (cases "a = i") (simp_all add: setitem_def)

lemma nth_setitem:
  "a < length mat \<Longrightarrow> b < length (mat ! a) \<Longrightarrow>
   setitem mat i j v ! a ! b = (if a = i \<and> b = j then as_float v else mat ! a ! b)"
  by (cases "a = i"; cases "b = j") (simp_all add: setitem_def)

lemma set_combinations2: "set (combinations2 n) = {(i, j). i < j \<and> j < n}"
  by (force simp: combinations2_def)

lemma length_combinations2: "length (combinations2 n) = n * (n - 1) div 2"
proof -
  have "length (combinations2 n) = (\<Sum>i<n. n - Suc i)"
    by (simp add: combinations2_def length_concat comp_def interv_sum_list_conv_sum_set_nat atLeast0LessThan)
  also have "\<dots> = (\<Sum>i<n. i)"
    by (rule sum.nat_diff_reindex)
  also have "\<dots> = n * (n - 1) div 2"
  proof -
    have "2 * (\<Sum>i<n. i) = n * (n - 1)"
    proof (induction n)
      case 0
      show ?case by simp
    next
      case (Suc k)
      then show ?case by (cases k) (simp_all add: algebra_simps)
    qed
    then show ?thesis by (metis nonzero_mult_div_cancel_left zero_neq_numeral)
  qed
  finally show ?thesis .
qed

lemma sorted_combinations_from:
  "sorted_wrt lex_less (concat (map (\<lambda>i. map (\<lambda>j. (i, j)) [Suc i ..< n]) [k ..< n]))"
proof (induction "n - k" arbitrary: k)
  case 0
  then show ?case by simp
next
  case (Suc d)
  then have kn: "k < n" and d: "d = n - Suc k" by simp_all
  have row: "sorted_wrt lex_less (map (\<lambda>j. (k, j)) [Suc k ..< n])"
    by (simp add: sorted_wrt_map lex_less_def)
  have cross: "\<forall>x\<in>set (map (\<lambda>j. (k, j)) [Suc k ..< n]).
      \<forall>y\<in>set (concat (map (\<lambda>i. map (\<lambda>j. (i, j)) [Suc i ..< n]) [Suc k ..< n])). lex_less x y"
    by (auto simp: lex_less_def)
  show ?case
    using kn row cross Suc.hyps(1) [OF d]
    by (simp add: upt_conv_Cons sorted_wrt_append)
qed

lemma sorted_combinations2: "sorted_wrt lex_less (combinations2 n)"
  unfolding combinations2_def by (rule sorted_combinations_from)


lemma make_dist_loop_entries:
  assumes "make_dist_loop rs m ps mat = Inr mat'"
    and "length mat = n"
    and "\<forall>a<n. length (mat ! a) = n"
    and "\<forall>(i, j)\<in>set ps. i < n \<and> j < n"
  shows "length mat' = n \<and> (\<forall>a<n. length (mat' ! a) = n) \<and>
         (\<forall>a<n. \<forall>b<n.
            if (a, b) \<in> set ps
            then \<exists>d. calc_distance (rs ! a) (rs ! b) m = Inr d \<and> mat' ! a ! b = as_float d
            else mat' ! a ! b = mat ! a ! b)"
  using assms
proof (induction ps arbitrary: mat)
  case Nil
  then show ?case by simp
next
  case (Cons p ps)
  obtain i j where p: "p = (i, j)" by (cases p)
  from Cons.prems(1) p obtain d where
    d: "calc_distance (rs ! i) (rs ! j) m = Inr d"
    and rest: "make_dist_loop rs m ps (setitem mat i j d) = Inr mat'"
    by (auto simp: Let_def split: sum.splits)
  from Cons.prems(4) p have ij: "i < n" "j < n" by auto
  have len: "length (setitem mat i j d) = n"
    using Cons.prems(2) by (simp add: length_setitem)
  have rows: "\<forall>a<n. length (setitem mat i j d ! a) = n"
    using Cons.prems(2,3) by (simp add: length_row_setitem)
  have inr: "\<forall>(i, j)\<in>set ps. i < n \<and> j < n"
    using Cons.prems(4) by simp
  note IH = Cons.IH [OF rest len rows inr]
  show ?case
  proof (intro conjI allI impI)
    show "length mat' = n" using IH by simp
  next
    fix a assume "a < n" then show "length (mat' ! a) = n" using IH by simp
  next
    fix a b assume ab: "a < n" "b < n"
    have cell: "setitem mat i j d ! a ! b = (if a = i \<and> b = j then as_float d else mat ! a ! b)"
      using ab Cons.prems(2,3) by (simp add: nth_setitem)
    from IH ab have step:
      "if (a, b) \<in> set ps
       then \<exists>d. calc_distance (rs ! a) (rs ! b) m = Inr d \<and> mat' ! a ! b = as_float d
       else mat' ! a ! b = setitem mat i j d ! a ! b"
      by blast
    show "if (a, b) \<in> set (p # ps)
          then \<exists>d. calc_distance (rs ! a) (rs ! b) m = Inr d \<and> mat' ! a ! b = as_float d
          else mat' ! a ! b = mat ! a ! b"
    proof (cases "(a, b) \<in> set ps")
      case True
      with step show ?thesis by simp
    next
      case False
      with step cell d p show ?thesis by auto
    qed
  qed
qed

lemma make_dist_loop_returns:
  "(\<exists>mat'. make_dist_loop rs m ps mat = Inr mat') \<longleftrightarrow>
   (\<forall>(i, j)\<in>set ps. \<exists>d. calc_distance (rs ! i) (rs ! j) m = Inr d)"
proof (induction ps arbitrary: mat)
  case Nil
  show ?case by simp
next
  case (Cons p ps)
  obtain i j where p: "p = (i, j)" by (cases p)
  show ?case
  proof (cases "calc_distance (rs ! i) (rs ! j) m")
    case (Inl e)
    then show ?thesis using p by (auto simp: Let_def)
  next
    case (Inr d)
    then show ?thesis using p Cons.IH [of "setitem mat i j d"] by (simp add: Let_def)
  qed
qed

text \<open>
  C2, as stated, at two residues without a CA atom and the metric "CA": the builder raises
  and returns no matrix.
\<close>

theorem make_dist_matrix_raises_counterexample:
  "make_dist_matrix [single ''N'' (0, 0, 0), single ''N'' (1, 0, 0)] ''CA'' = Inl NotImplementedError"
  by (simp add: make_dist_matrix_def combinations2_def upt_rec numeral_eq_Suc calc_distance_def
       get_atom_coord_def getitem_def single_def Let_def)

text \<open>
  C2, amended. For a residue list of length \<open>n\<close> and a metric selector, the builder returns
  a matrix exactly when the selected distance of every pair \<open>i < j\<close> is defined (does not
  raise). The matrix it returns is \<open>n \<times> n\<close>; each entry \<open>[i][j]\<close> with \<open>i < j\<close> is the selected
  distance between \<open>residues[i]\<close> and \<open>residues[j]\<close> as the array stores it; every other
  entry is 0. The pairs visited are the \<open>n(n-1)/2\<close> pairs \<open>i < j < n\<close>, in lexicographic
  order.
\<close>

theorem make_dist_matrix_entries:
  "((\<exists>mat. make_dist_matrix rs m = Inr mat) \<longleftrightarrow>
      (\<forall>i j. i < j \<and> j < length rs \<longrightarrow> (\<exists>d. calc_distance (rs ! i) (rs ! j) m = Inr d))) \<and>
   (\<forall>mat. make_dist_matrix rs m = Inr mat \<longrightarrow>
      length mat = length rs \<and>
      (\<forall>i<length rs. length (mat ! i) = length rs) \<and>
      (\<forall>i<length rs. \<forall>j<length rs.
         (i < j \<longrightarrow> (\<exists>d. calc_distance (rs ! i) (rs ! j) m = Inr d \<and> mat ! i ! j = as_float d)) \<and>
         (j \<le> i \<longrightarrow> mat ! i ! j = Fin 0))) \<and>
   set (combinations2 (length rs)) = {(i, j). i < j \<and> j < length rs} \<and>
   length (combinations2 (length rs)) = length rs * (length rs - 1) div 2 \<and>
   sorted_wrt lex_less (combinations2 (length rs))"
proof (intro conjI allI impI)
  show "(\<exists>mat. make_dist_matrix rs m = Inr mat) \<longleftrightarrow>
      (\<forall>i j. i < j \<and> j < length rs \<longrightarrow> (\<exists>d. calc_distance (rs ! i) (rs ! j) m = Inr d))"
    unfolding make_dist_matrix_def Let_def make_dist_loop_returns set_combinations2 by auto
next
  fix mat assume ret: "make_dist_matrix rs m = Inr mat"
  let ?n = "length rs"
  have loop: "make_dist_loop rs m (combinations2 ?n) (zeros ?n ?n) = Inr mat"
    using ret by (simp add: make_dist_matrix_def Let_def)
  have inr: "\<forall>(i, j)\<in>set (combinations2 ?n). i < ?n \<and> j < ?n"
    by (auto simp: set_combinations2)
  note E = make_dist_loop_entries [OF loop _ _ inr, of ]
  have E': "length mat = ?n \<and> (\<forall>a<?n. length (mat ! a) = ?n) \<and>
         (\<forall>a<?n. \<forall>b<?n.
            if (a, b) \<in> set (combinations2 ?n)
            then \<exists>d. calc_distance (rs ! a) (rs ! b) m = Inr d \<and> mat ! a ! b = as_float d
            else mat ! a ! b = zeros ?n ?n ! a ! b)"
    by (rule E) (simp_all add: zeros_def)
  show "length mat = ?n" using E' by simp
  { fix i assume "i < ?n" then show "length (mat ! i) = ?n" using E' by simp }
  { fix i j assume "i < ?n" "j < ?n" "i < j"
    then show "\<exists>d. calc_distance (rs ! i) (rs ! j) m = Inr d \<and> mat ! i ! j = as_float d"
      using E' by (auto simp: set_combinations2) }
  { fix i j assume ij: "i < ?n" "j < ?n" "j \<le> i"
    then have "(i, j) \<notin> set (combinations2 ?n)" by (auto simp: set_combinations2)
    with E' ij have "mat ! i ! j = zeros ?n ?n ! i ! j" by auto
    then show "mat ! i ! j = Fin 0" using ij by (simp add: zeros_def) }
next
  show "set (combinations2 (length rs)) = {(i, j). i < j \<and> j < length rs}" by (rule set_combinations2)
  show "length (combinations2 (length rs)) = length rs * (length rs - 1) div 2" by (rule length_combinations2)
  show "sorted_wrt lex_less (combinations2 (length rs))" by (rule sorted_combinations2)
qed

theorem make_dist_matrix_entries_witness:
  "make_dist_matrix [single ''CA'' (0, 0, 0), single ''CA'' (3, 4, 0)] ''CA''
     = Inr [[Fin 0, Fin 5], [Fin 0, Fin 0]] \<and>
   calc_distance (single ''CA'' (0, 0, 0)) (single ''CA'' (3, 4, 0)) ''CA'' = Inr (Some (Fin 5)) \<and>
   length (combinations2 2) = 1"
  using make_dist_matrix_entries [of "[single ''CA'' (0, 0, 0), single ''CA'' (3, 4, 0)]" "''CA''"]
  by (simp add: make_dist_matrix_def combinations2_def upt_rec numeral_eq_Suc calc_distance_def
       get_atom_coord_def getitem_def single_def zeros_def setitem_def as_float_def geom_defs)





subsection \<open>The side-chain centre-of-mass branch\<close>

lemma sccmass_loop_defers_nothing: "snd (sccmass_loop rs ps (mat, e)) = e"
  by (induction ps arbitrary: mat) (auto simp: calc_cmass_distance_def Let_def)

lemma sccmass_matrix_deferred_empty: "\<exists>mat. sccmass_matrix rs = Some (mat, [])"
proof -
  let ?n = "length rs"
  obtain mat e where L: "sccmass_loop rs (List.product [0 ..< ?n] [0 ..< ?n]) (zeros ?n ?n, []) = (mat, e)"
    by (cases "sccmass_loop rs (List.product [0 ..< ?n] [0 ..< ?n]) (zeros ?n ?n, [])")
  with sccmass_loop_defers_nothing [of rs "List.product [0 ..< ?n] [0 ..< ?n]" "zeros ?n ?n" "[]"]
  have "e = []" by simp
  with L show ?thesis by (simp add: sccmass_matrix_def)
qed

text \<open>
  C5. For the list of three residues whose middle one is \<open>gly\<close> (no side-chain atoms), the
  branch defers no pair (the list of deferred pairs is empty) and the five cells of row 1 and
  column 1 hold NaN; none is set to 3, the largest finite entry of the matrix.
\<close>

theorem sccmass_matrix_no_fill:
  "sccmass_matrix [single ''CB'' (0, 0, 0), gly, single ''CB'' (3, 0, 0)] =
     Some ([[Fin 0, NaN, Fin 3], [NaN, NaN, NaN], [Fin 3, NaN, Fin 0]], [])"
  by (simp add: sccmass_matrix_def zeros_def setitem_def as_float_def upt_rec numeral_eq_Suc calc_cmass_distance_def calc_center_of_mass_def fsum_def mass_times_coord_def
      single_def gly_def geom_defs get_sidechain_atoms_def get_iterator_def is_sidechain_def BACKBONE_FULL_ATOMS_def)

end
